theory Spec2Isabelle
  imports Complex_Main "HOL-Library.Word"
begin

section \<open>Engine constants (src/engine/Constants.ts)\<close>

text \<open>
  JavaScript numbers are modelled as real numbers: every quantity the engine compares
  (positions, seconds, health points, charge levels) is treated as an exact value.
\<close>

definition GROUND_Y :: real where
  "GROUND_Y = 900"

definition FIGHTER_WIDTH :: real where
  "FIGHTER_WIDTH = 100"

definition MOVE_SPEED :: real where
  "MOVE_SPEED = 400"

definition MAX_CHARGE_TIME :: real where
  "MAX_CHARGE_TIME = 1"

definition OVERHEAT_TIME :: real where
  "OVERHEAT_TIME = 2"

datatype AttackName = JAB | HEAVY_PUNCH | KICK_FLICK | HEAVY_KICK

text \<open>The \<open>damage\<close> column of \<open>ATTACK_FRAME_DATA\<close>.\<close>

fun damage :: "AttackName \<Rightarrow> real" where
  "damage JAB = 5"
| "damage HEAVY_PUNCH = 20"
| "damage KICK_FLICK = 7"
| "damage HEAVY_KICK = 25"

section \<open>The fighter (src/engine/Fighter.ts)\<close>

datatype FighterState =
    IDLE
  | MOVING
  | CHARGING
  | ATTACKING
  | BLOCKING_HIGH
  | BLOCKING_LOW
  | STUNNED
  | OVERHEATED

datatype AttackType = PUNCH | KICK | NONE

datatype AttackHeight = HIGH | MID | LOW

text \<open>
  The fields of class \<open>Fighter\<close>. A signal is modelled by the value it holds; the
  field \<open>id\<close> is called \<open>fid\<close> because \<open>id\<close> is the identity function of HOL.
\<close>

record Fighter =
  fid :: string
  x :: real
  y :: real
  state :: FighterState
  health :: real
  chargeLevel :: real
  attackType :: AttackType
  attackHeight :: AttackHeight
  facingRight :: bool
  chargeStartTime :: real

text \<open>The input object of \<open>Fighter.update\<close>: \<open>{x, y, punchHeld, kickHeld}\<close>.\<close>

record Input =
  x_in :: real
  y_in :: real
  punchHeld :: bool
  kickHeld :: bool

text \<open>The constructor \<open>new Fighter(id, startX)\<close>.\<close>

definition newFighter :: "string \<Rightarrow> real \<Rightarrow> Fighter" where
  "newFighter i startX =
     \<lparr> fid = i, x = startX, y = GROUND_Y, state = IDLE, health = 100,
       chargeLevel = 0, attackType = NONE, attackHeight = MID,
       facingRight = True, chargeStartTime = 0 \<rparr>"

text \<open>
  \<open>executeAttack\<close> computes \<open>isMaxCharge\<close> for the sound and the log line only; the
  one change it makes to the fighter is the state.
\<close>

definition isMaxCharge :: "real \<Rightarrow> bool" where
  "isMaxCharge chargeDuration \<longleftrightarrow>
     chargeDuration \<ge> MAX_CHARGE_TIME \<and> chargeDuration < OVERHEAT_TIME"

definition executeAttack :: "real \<Rightarrow> Fighter \<Rightarrow> Fighter" where
  "executeAttack chargeDuration f = f\<lparr>state := ATTACKING\<rparr>"

text \<open>
  The three callbacks handed to \<open>setTimeout\<close>. Each is guarded by the state it was
  scheduled from; the host fires them later, between two updates.
\<close>

definition overheatCooldown :: "Fighter \<Rightarrow> Fighter" where
  "overheatCooldown f = (if state f = OVERHEATED then f\<lparr>state := IDLE\<rparr> else f)"

definition attackAnimationEnd :: "Fighter \<Rightarrow> Fighter" where
  "attackAnimationEnd f = (if state f = ATTACKING then f\<lparr>state := IDLE\<rparr> else f)"

definition stunRecovery :: "Fighter \<Rightarrow> Fighter" where
  "stunRecovery f = (if state f = STUNNED then f\<lparr>state := IDLE\<rparr> else f)"

text \<open>
  \<open>Fighter.update(dt, input)\<close>. The argument \<open>now\<close> is the value of
  \<open>performance.now() / 1000\<close> read by the call (each call reads the clock in at most
  one branch). The four stages follow the source: blocking, movement, charge, release;
  \<open>currentState\<close> is the state on entry throughout.
\<close>

definition blockingLogic :: "Input \<Rightarrow> Fighter \<Rightarrow> Fighter" where
  "blockingLogic inp f =
     (let currentState = state f in
      if currentState \<in> {IDLE, MOVING, BLOCKING_HIGH, BLOCKING_LOW} then
        (if y_in inp > 0.5 then f\<lparr>state := BLOCKING_HIGH\<rparr>
         else if y_in inp < - 0.5 then f\<lparr>state := BLOCKING_LOW\<rparr>
         else if currentState = BLOCKING_HIGH \<or> currentState = BLOCKING_LOW
              then f\<lparr>state := IDLE\<rparr>
         else f)
      else f)"

definition isBlocking :: "Fighter \<Rightarrow> bool" where
  "isBlocking f \<longleftrightarrow> state f = BLOCKING_HIGH \<or> state f = BLOCKING_LOW"

definition movementLogic :: "FighterState \<Rightarrow> real \<Rightarrow> Input \<Rightarrow> Fighter \<Rightarrow> Fighter" where
  "movementLogic currentState dt inp f =
     (if currentState \<in> {IDLE, MOVING} \<and> \<not> isBlocking f then
        (if x_in inp \<noteq> 0 then
           f\<lparr>state := MOVING, x := x f + x_in inp * MOVE_SPEED * dt,
             facingRight := (x_in inp > 0)\<rparr>
         else if currentState = MOVING then f\<lparr>state := IDLE\<rparr>
         else f)
      else f)"

definition chargeLogic :: "FighterState \<Rightarrow> bool \<Rightarrow> Input \<Rightarrow> real \<Rightarrow> Fighter \<Rightarrow> Fighter" where
  "chargeLogic currentState blocking inp now f =
     (if punchHeld inp \<or> kickHeld inp then
        (let f1 =
           (if currentState \<notin> {CHARGING, OVERHEATED, ATTACKING} \<and> \<not> blocking then
              f\<lparr>state := CHARGING, chargeStartTime := now, chargeLevel := 0,
                attackType := (if punchHeld inp then PUNCH else KICK)\<rparr>
            else f)
         in
           if currentState = CHARGING then
             (let duration = now - chargeStartTime f1;
                  f2 = f1\<lparr>chargeLevel := min (duration / MAX_CHARGE_TIME) 1\<rparr>
              in if duration > OVERHEAT_TIME
                 then f2\<lparr>state := OVERHEATED, chargeLevel := 0\<rparr>
                 else f2)
           else f1)
      else
        (if currentState = CHARGING then
           (let duration = now - chargeStartTime f;
                modifier0 = MID;
                modifier1 = (if y_in inp > 0.5 then HIGH else modifier0);
                modifier = (if y_in inp < - 0.5 then LOW else modifier1)
            in (executeAttack duration (f\<lparr>attackHeight := modifier\<rparr>))\<lparr>chargeLevel := 0\<rparr>)
         else f))"

definition update :: "real \<Rightarrow> Input \<Rightarrow> real \<Rightarrow> Fighter \<Rightarrow> Fighter" where
  "update dt inp now f =
     (let currentState = state f;
          f1 = blockingLogic inp f;
          blocking = isBlocking f1;
          f2 = movementLogic currentState dt inp f1
      in chargeLogic currentState blocking inp now f2)"

text \<open>A run of updates, oldest first: each entry is \<open>(dt, input, now)\<close>.\<close>

fun updates :: "(real \<times> Input \<times> real) list \<Rightarrow> Fighter \<Rightarrow> Fighter" where
  "updates [] f = f"
| "updates ((dt, inp, now) # rest) f = updates rest (update dt inp now f)"

section \<open>The orchestrator (src/engine/FightManager.ts)\<close>

definition chipDamage :: real where
  "chipDamage = 2"

text \<open>The damage tier chosen from the attack type and the charge level read at the hit.\<close>

definition baseDamage :: "AttackType \<Rightarrow> real \<Rightarrow> real" where
  "baseDamage t level =
     (if t = PUNCH then (if level \<ge> 0.9 then damage HEAVY_PUNCH else damage JAB)
      else if t = KICK then (if level \<ge> 0.9 then damage HEAVY_KICK else damage KICK_FLICK)
      else 0)"

text \<open>
  \<open>checkHitForAttacker(attacker, defender)\<close> mutates both objects; the model returns
  the pair \<open>(attacker, defender)\<close> after the call. The two early returns and the two
  block branches are the branches of the model, in the order of the source.
\<close>

definition checkHitForAttacker :: "Fighter \<Rightarrow> Fighter \<Rightarrow> Fighter \<times> Fighter" where
  "checkHitForAttacker attacker defender =
     (if state attacker \<noteq> ATTACKING then (attacker, defender)
      else
        let distance = \<bar>x attacker - x defender\<bar>;
            attackRange = FIGHTER_WIDTH * 1.5
        in if distance > attackRange then (attacker, defender)
        else
          let ah = attackHeight attacker;
              defenderState = state defender;
              isBlockedHigh = (defenderState = BLOCKING_HIGH \<and> ah = HIGH);
              isBlockedLow = (defenderState = BLOCKING_LOW \<and> ah = LOW);
              isBlockedMid = ((defenderState = BLOCKING_HIGH \<or> defenderState = BLOCKING_LOW)
                              \<and> ah = MID)
          in if isBlockedHigh \<or> isBlockedLow then (attacker, defender)
          else if isBlockedMid then
            (attacker, defender\<lparr>health := max 0 (health defender - chipDamage)\<rparr>)
          else
            let dmg = baseDamage (attackType attacker) (chargeLevel attacker)
            in (attacker\<lparr>state := IDLE, attackType := NONE\<rparr>,
                defender\<lparr>health := max 0 (health defender - dmg), state := STUNNED\<rparr>))"

text \<open>\<open>checkHits\<close> on the pair \<open>(player, cpu)\<close>: player attacks first, then the cpu.\<close>

definition checkHits :: "Fighter \<times> Fighter \<Rightarrow> Fighter \<times> Fighter" where
  "checkHits m =
     (let (player1, cpu1) = checkHitForAttacker (fst m) (snd m);
          (cpu2, player2) = checkHitForAttacker cpu1 player1
      in (player2, cpu2))"

text \<open>The constructor of \<open>FightManager\<close>: the two fighters of a match.\<close>

definition newMatch :: "Fighter \<times> Fighter" where
  "newMatch = (newFighter ''player'' 400, (newFighter ''cpu'' 1200)\<lparr>facingRight := False\<rparr>)"

text \<open>
  Step 5 of \<open>FightManager.update\<close>: which handler the win check invokes.
\<close>

datatype Outcome = HandleWin | HandleLoss | NoOutcome

definition winCondition :: "Fighter \<times> Fighter \<Rightarrow> Outcome" where
  "winCondition m =
     (if health (snd m) \<le> 0 then HandleWin
      else if health (fst m) \<le> 0 then HandleLoss
      else NoOutcome)"

text \<open>
  One tick of \<open>FightManager.update\<close> on the pair \<open>(player, cpu)\<close>. The inputs of the
  two fighters and the clock values their updates read are arguments. Step 3 belongs
  to module \<open>Collision\<close> and is the argument \<open>collide\<close>: the effect of
  \<open>if (checkCollision(..)) resolvePushCollision(..)\<close> on the pair. The result is the pair after hit detection and the handler invoked.
\<close>

definition afterHits ::
  "(Fighter \<times> Fighter \<Rightarrow> Fighter \<times> Fighter) \<Rightarrow> real \<Rightarrow> Input \<Rightarrow> real \<Rightarrow> Input \<Rightarrow> real
     \<Rightarrow> Fighter \<times> Fighter \<Rightarrow> Fighter \<times> Fighter" where
  "afterHits collide dt playerInput nowP cpuInput nowC m =
     checkHits (collide (update dt playerInput nowP (fst m), update dt cpuInput nowC (snd m)))"

definition managerUpdate ::
  "(Fighter \<times> Fighter \<Rightarrow> Fighter \<times> Fighter) \<Rightarrow> real \<Rightarrow> Input \<Rightarrow> real \<Rightarrow> Input \<Rightarrow> real
     \<Rightarrow> Fighter \<times> Fighter \<Rightarrow> (Fighter \<times> Fighter) \<times> Outcome" where
  "managerUpdate collide dt playerInput nowP cpuInput nowC m =
     (let m' = afterHits collide dt playerInput nowP cpuInput nowC m
      in (m', winCondition m'))"

text \<open>A run of ticks, oldest first: each entry is \<open>(dt, playerInput, nowP, cpuInput, nowC)\<close>.\<close>

fun ticks ::
  "(Fighter \<times> Fighter \<Rightarrow> Fighter \<times> Fighter) \<Rightarrow> (real \<times> Input \<times> real \<times> Input \<times> real) list
     \<Rightarrow> Fighter \<times> Fighter \<Rightarrow> Fighter \<times> Fighter" where
  "ticks collide [] m = m"
| "ticks collide ((dt, playerInput, nowP, cpuInput, nowC) # rest) m =
     ticks collide rest (afterHits collide dt playerInput nowP cpuInput nowC m)"

text \<open>
  The states a match can reach from construction. Every step that writes to a fighter
  is a rule: an update of either fighter with any input at any clock value, hit
  detection in either direction, each of the three timer callbacks on either fighter,
  and a displacement of the two fighters along the horizontal axis (all that a push
  apart can do).
\<close>

inductive reachable :: "Fighter \<times> Fighter \<Rightarrow> bool" where
  construction: "reachable newMatch"
| player_update: "reachable (p, c) \<Longrightarrow> reachable (update dt inp now p, c)"
| cpu_update: "reachable (p, c) \<Longrightarrow> reachable (p, update dt inp now c)"
| player_hits: "reachable (p, c) \<Longrightarrow> checkHitForAttacker p c = (p', c') \<Longrightarrow> reachable (p', c')"
| cpu_hits: "reachable (p, c) \<Longrightarrow> checkHitForAttacker c p = (c', p') \<Longrightarrow> reachable (p', c')"
| player_timer: "reachable (p, c) \<Longrightarrow> t \<in> {overheatCooldown, attackAnimationEnd, stunRecovery}
     \<Longrightarrow> reachable (t p, c)"
| cpu_timer: "reachable (p, c) \<Longrightarrow> t \<in> {overheatCooldown, attackAnimationEnd, stunRecovery}
     \<Longrightarrow> reachable (p, t c)"
| pushed: "reachable (p, c) \<Longrightarrow> reachable (p\<lparr>x := px\<rparr>, c\<lparr>x := cx\<rparr>)"

text \<open>
  What a match can do to one fighter short of firing its overheat cooldown callback or
  landing a hit on it: \<open>undisturbed f g\<close> holds when \<open>g\<close> comes from \<open>f\<close> by a run of
  updates with any input at any clock value, of the other two timer callbacks, of
  horizontal displacements, of hit detections with the fighter as attacker against
  any defender, and of hit detections against it by a fighter that is not ATTACKING or
  is beyond the attack range.
\<close>

inductive undisturbed :: "Fighter \<Rightarrow> Fighter \<Rightarrow> bool" where
  still: "undisturbed f f"
| by_update: "undisturbed f g \<Longrightarrow> undisturbed f (update dt inp now g)"
| by_attack_timer: "undisturbed f g \<Longrightarrow> undisturbed f (attackAnimationEnd g)"
| by_stun_timer: "undisturbed f g \<Longrightarrow> undisturbed f (stunRecovery g)"
| by_push: "undisturbed f g \<Longrightarrow> undisturbed f (g\<lparr>x := px\<rparr>)"
| as_attacker: "undisturbed f g \<Longrightarrow> undisturbed f (fst (checkHitForAttacker g d))"
| not_hit: "undisturbed f g
     \<Longrightarrow> state a \<noteq> ATTACKING \<or> \<bar>x a - x g\<bar> > FIGHTER_WIDTH * 1.5
     \<Longrightarrow> undisturbed f (snd (checkHitForAttacker a g))"

section \<open>The diagnostics endpoint (MaskValue)\<close>

text \<open>
  A C\# string is a sequence of UTF-16 code units and \<open>Length\<close> counts them; a
  \<open>string?\<close> is an option. \<open>star\<close> is the code unit of the mask character.
\<close>

type_synonym cstring = "16 word list"

definition star :: "16 word" where
  "star = 42"

definition MaskValue :: "cstring option \<Rightarrow> cstring option" where
  "MaskValue v =
     (case v of
        None \<Rightarrow> None
      | Some s \<Rightarrow>
          if s = [] \<or> length s \<le> 6 then Some [star, star, star]
          else
            let visible = 3
            in Some (take visible s
                     @ replicate (length s - visible * 2) star
                     @ drop (length s - visible) s))"

section \<open>The wind-up cue\<close>

text \<open>
  Modelled from the spec: the accessor \<open>windUpProgress\<close> of the fighter and the constant
  \<open>WIND_UP_TIME\<close> are missing from \<open>Fighter.ts\<close> and \<open>Constants.ts\<close>; the engine tests
  read both. The spec gives
  \<open>windUpProgress = min(elapsed / WIND_UP_TIME, 1)\<close> while charging, with
  \<open>WIND_UP_TIME < MAX_CHARGE_TIME\<close>; the constant is the first argument here.
\<close>

definition windUpProgress :: "real \<Rightarrow> real \<Rightarrow> real" where
  "windUpProgress windUpTime elapsed = min (elapsed / windUpTime) 1"

section \<open>Basic facts about one update\<close>

lemmas update_defs = update_def blockingLogic_def movementLogic_def chargeLogic_def
  executeAttack_def isBlocking_def Let_def

lemma update_attacking: "state f = ATTACKING \<Longrightarrow> update dt inp now f = f"
  by (simp add: update_defs)

lemma update_overheated: "state f = OVERHEATED \<Longrightarrow> update dt inp now f = f"
  by (simp add: update_defs)

lemma update_health: "health (update dt inp now f) = health f"
  by (simp add: update_defs)

lemma update_y: "y (update dt inp now f) = y f"
  by (simp add: update_defs)

lemma updates_y: "y (updates us f) = y f"
  by (induction us f rule: updates.induct) (simp_all add: update_y)

lemma updates_overheated: "state f = OVERHEATED \<Longrightarrow> updates us f = f"
  by (induction us f rule: updates.induct) (simp_all add: update_overheated)

section \<open>Basic facts about hit detection\<close>

lemma baseDamage_nonneg: "0 \<le> baseDamage t l"
  by (simp add: baseDamage_def)

lemma checkHit_health:
  "0 \<le> health d \<Longrightarrow>
     0 \<le> health (snd (checkHitForAttacker a d))
     \<and> health (snd (checkHitForAttacker a d)) \<le> health d"
  using baseDamage_nonneg [of "attackType a" "chargeLevel a"]
  by (simp add: checkHitForAttacker_def Let_def chipDamage_def)

lemma checkHit_attacker_health: "health (fst (checkHitForAttacker a d)) = health a"
  by (simp add: checkHitForAttacker_def Let_def)

section \<open>Hit classification\<close>

text \<open>
  Claim C2. With the attacker in state ATTACKING and the defender within the extended
  attack range (1.5 fighter widths), hit detection does exactly one of three things.
  A block at the height of the attack changes neither fighter. A MID attack against
  either block subtracts the chip amount from the defender's health (clamped at 0) and
  changes nothing else, so the defender is not stunned. In every other case the
  defender loses the tier damage (clamped at 0) and becomes STUNNED, and the attacker
  goes back to IDLE with attack type NONE.
\<close>

theorem checkHit_classification:
  assumes "state a = ATTACKING" and "\<bar>x a - x d\<bar> \<le> FIGHTER_WIDTH * 1.5"
  shows "(state d = BLOCKING_HIGH \<and> attackHeight a = HIGH
            \<or> state d = BLOCKING_LOW \<and> attackHeight a = LOW
          \<longrightarrow> checkHitForAttacker a d = (a, d))
     \<and> ((state d = BLOCKING_HIGH \<or> state d = BLOCKING_LOW) \<and> attackHeight a = MID
          \<longrightarrow> checkHitForAttacker a d = (a, d\<lparr>health := max 0 (health d - chipDamage)\<rparr>)
              \<and> state (snd (checkHitForAttacker a d)) \<noteq> STUNNED)
     \<and> (\<not> (state d = BLOCKING_HIGH \<and> attackHeight a = HIGH
              \<or> state d = BLOCKING_LOW \<and> attackHeight a = LOW)
          \<and> \<not> ((state d = BLOCKING_HIGH \<or> state d = BLOCKING_LOW) \<and> attackHeight a = MID)
          \<longrightarrow> checkHitForAttacker a d =
                (a\<lparr>state := IDLE, attackType := NONE\<rparr>,
                 d\<lparr>health := max 0 (health d - baseDamage (attackType a) (chargeLevel a)),
                   state := STUNNED\<rparr>))"
  using assms by (auto simp add: checkHitForAttacker_def Let_def)

theorem checkHit_classification_witness:
  "state ((newFighter ''player'' 400)\<lparr>state := ATTACKING, attackType := KICK\<rparr>) = ATTACKING
   \<and> \<bar>x ((newFighter ''player'' 400)\<lparr>state := ATTACKING, attackType := KICK\<rparr>)
        - x (newFighter ''cpu'' 500)\<bar> \<le> FIGHTER_WIDTH * 1.5
   \<and> health (snd (checkHitForAttacker
         ((newFighter ''player'' 400)\<lparr>state := ATTACKING, attackType := KICK\<rparr>)
         (newFighter ''cpu'' 500))) = 93
   \<and> health (snd (checkHitForAttacker
         ((newFighter ''player'' 400)\<lparr>state := ATTACKING, attackType := KICK\<rparr>)
         ((newFighter ''cpu'' 500)\<lparr>state := BLOCKING_LOW\<rparr>))) = 98
   \<and> health (snd (checkHitForAttacker
         ((newFighter ''player'' 400)
            \<lparr>state := ATTACKING, attackType := KICK, attackHeight := LOW\<rparr>)
         ((newFighter ''cpu'' 500)\<lparr>state := BLOCKING_LOW\<rparr>))) = 100"
  using
    checkHit_classification
      [of "(newFighter ''player'' 400)\<lparr>state := ATTACKING, attackType := KICK\<rparr>"
          "newFighter ''cpu'' 500"]
    checkHit_classification
      [of "(newFighter ''player'' 400)\<lparr>state := ATTACKING, attackType := KICK\<rparr>"
          "(newFighter ''cpu'' 500)\<lparr>state := BLOCKING_LOW\<rparr>"]
    checkHit_classification
      [of "(newFighter ''player'' 400)
             \<lparr>state := ATTACKING, attackType := KICK, attackHeight := LOW\<rparr>"
          "(newFighter ''cpu'' 500)\<lparr>state := BLOCKING_LOW\<rparr>"]
  by (simp add: newFighter_def FIGHTER_WIDTH_def baseDamage_def chipDamage_def)

section \<open>Masking of configuration values\<close>

text \<open>
  Claim C10. A value of at most 6 code units is masked to the constant \<open>***\<close>, whatever
  its content. A longer value keeps its length; its first 3 and last 3 code units are
  shown in place, and every position in between holds the mask character.
\<close>

theorem MaskValue_masks:
  "(length s \<le> 6 \<longrightarrow> MaskValue (Some s) = Some [star, star, star])
   \<and> (6 < length s \<longrightarrow>
        (\<exists>r. MaskValue (Some s) = Some r \<and> length r = length s
           \<and> (\<forall>i<3. r ! i = s ! i)
           \<and> (\<forall>i. 3 \<le> i \<and> i < length s - 3 \<longrightarrow> r ! i = star)
           \<and> (\<forall>i. length s - 3 \<le> i \<and> i < length s \<longrightarrow> r ! i = s ! i)))"
  by (auto simp add: MaskValue_def Let_def nth_append)

theorem MaskValue_masks_witness:
  "length [115, 101, 99 :: 16 word] \<le> 6
   \<and> MaskValue (Some [115, 101, 99]) = Some [star, star, star]
   \<and> 6 < length [112, 97, 115, 115, 119, 111, 114, 100 :: 16 word]
   \<and> (\<exists>r. MaskValue (Some [112, 97, 115, 115, 119, 111, 114, 100]) = Some r
          \<and> length r = 8 \<and> r ! 0 = 112 \<and> r ! 2 = 115 \<and> r ! 3 = star \<and> r ! 4 = star
          \<and> r ! 5 = 111 \<and> r ! 7 = 100)"
proof -
  let ?short = "[115, 101, 99 :: 16 word]"
  let ?long = "[112, 97, 115, 115, 119, 111, 114, 100 :: 16 word]"
  have a: "MaskValue (Some ?short) = Some [star, star, star]"
    using MaskValue_masks [of ?short] by simp
  obtain r where r: "MaskValue (Some ?long) = Some r" "length r = length ?long"
      "\<forall>i<3. r ! i = ?long ! i"
      "\<forall>i. 3 \<le> i \<and> i < length ?long - 3 \<longrightarrow> r ! i = star"
      "\<forall>i. length ?long - 3 \<le> i \<and> i < length ?long \<longrightarrow> r ! i = ?long ! i"
    using MaskValue_masks [of ?long] by auto
  have "r ! 0 = 112" "r ! 2 = 115" using r(3) by auto
  moreover have "r ! 3 = star" "r ! 4 = star" using r(4) by auto
  moreover have "r ! 5 = 111" "r ! 7 = 100" using r(5) by auto
  ultimately show ?thesis using a r(1,2) by simp
qed

lemma checkHit_not_attacking:
  "state a \<noteq> ATTACKING \<Longrightarrow> checkHitForAttacker a d = (a, d)"
  by (simp add: checkHitForAttacker_def)

lemma checkHit_chip:
  assumes "state a = ATTACKING" and "attackHeight a = MID"
    and "\<bar>x a - x d\<bar> \<le> FIGHTER_WIDTH * 1.5"
    and "state d = BLOCKING_HIGH \<or> state d = BLOCKING_LOW"
  shows "checkHitForAttacker a d = (a, d\<lparr>health := max 0 (health d - chipDamage)\<rparr>)"
  using assms by (auto simp add: checkHitForAttacker_def Let_def)

section \<open>Health stays in range\<close>

lemma timer_health:
  "t \<in> {overheatCooldown, attackAnimationEnd, stunRecovery} \<Longrightarrow> health (t f) = health f"
  by (auto simp add: overheatCooldown_def attackAnimationEnd_def stunRecovery_def)

lemma health_bounds_step:
  assumes "0 \<le> health d \<and> health d \<le> 100" and "0 \<le> health a \<and> health a \<le> 100"
    and "checkHitForAttacker a d = (a', d')"
  shows "(0 \<le> health a' \<and> health a' \<le> 100) \<and> (0 \<le> health d' \<and> health d' \<le> 100)"
proof -
  have "health a' = health a"
    using checkHit_attacker_health [of a d] assms(3) by simp
  moreover have "0 \<le> health d' \<and> health d' \<le> health d"
    using checkHit_health [of d a] assms(1,3) by simp
  ultimately show ?thesis using assms(1,2) by linarith
qed

lemma reachable_health:
  "reachable m \<Longrightarrow>
     (0 \<le> health (fst m) \<and> health (fst m) \<le> 100)
     \<and> (0 \<le> health (snd m) \<and> health (snd m) \<le> 100)"
proof (induction rule: reachable.induct)
  case construction
  show ?case by (simp add: newMatch_def newFighter_def)
next
  case (player_update p c dt inp now)
  then show ?case by (simp add: update_health)
next
  case (cpu_update p c dt inp now)
  then show ?case by (simp add: update_health)
next
  case (player_hits p c p' c')
  then show ?case using health_bounds_step [of c p p' c'] by simp
next
  case (cpu_hits p c c' p')
  then show ?case using health_bounds_step [of p c c' p'] by simp
next
  case (player_timer p c t)
  then show ?case using timer_health [of t p] by simp
next
  case (cpu_timer p c t)
  then show ?case using timer_health [of t c] by simp
next
  case (pushed p c px cx)
  then show ?case by simp
qed

text \<open>
  Claim C7. Both fighters are constructed with health 100; hit detection never takes a
  non-negative health below 0; and in every state a match can reach, the health of
  each fighter lies between 0 and 100.
\<close>

theorem health_in_range:
  "health (fst newMatch) = 100 \<and> health (snd newMatch) = 100
   \<and> (\<forall>a d. 0 \<le> health d \<longrightarrow> 0 \<le> health (snd (checkHitForAttacker a d)))
   \<and> (\<forall>m. reachable m \<longrightarrow>
         0 \<le> health (fst m) \<and> health (fst m) \<le> 100
         \<and> 0 \<le> health (snd m) \<and> health (snd m) \<le> 100)"
  using reachable_health checkHit_health
  by (simp add: newMatch_def newFighter_def)

theorem health_in_range_witness:
  "reachable (checkHitForAttacker
      (update 0.016 \<lparr>x_in = 0, y_in = 0, punchHeld = False, kickHeld = False\<rparr> 0.5
        (update 0.016 \<lparr>x_in = 0, y_in = 0, punchHeld = False, kickHeld = True\<rparr> 0
          ((fst newMatch)\<lparr>x := 400\<rparr>)))
      ((snd newMatch)\<lparr>x := 500\<rparr>))
   \<and> 0 \<le> health (snd (checkHitForAttacker
      (update 0.016 \<lparr>x_in = 0, y_in = 0, punchHeld = False, kickHeld = False\<rparr> 0.5
        (update 0.016 \<lparr>x_in = 0, y_in = 0, punchHeld = False, kickHeld = True\<rparr> 0
          ((fst newMatch)\<lparr>x := 400\<rparr>)))
      ((snd newMatch)\<lparr>x := 500\<rparr>)))
   \<and> health (snd (checkHitForAttacker
      (update 0.016 \<lparr>x_in = 0, y_in = 0, punchHeld = False, kickHeld = False\<rparr> 0.5
        (update 0.016 \<lparr>x_in = 0, y_in = 0, punchHeld = False, kickHeld = True\<rparr> 0
          ((fst newMatch)\<lparr>x := 400\<rparr>)))
      ((snd newMatch)\<lparr>x := 500\<rparr>))) = 93"
proof -
  let ?hold = "\<lparr>x_in = 0, y_in = 0, punchHeld = False, kickHeld = True\<rparr>"
  let ?release = "\<lparr>x_in = 0, y_in = 0, punchHeld = False, kickHeld = False\<rparr>"
  let ?p = "update 0.016 ?release 0.5 (update 0.016 ?hold 0 ((fst newMatch)\<lparr>x := 400\<rparr>))"
  let ?c = "(snd newMatch)\<lparr>x := 500\<rparr>"
  have "reachable (fst newMatch, snd newMatch)"
    using construction by simp
  then have "reachable ((fst newMatch)\<lparr>x := 400\<rparr>, ?c)"
    by (rule pushed)
  then have "reachable (update 0.016 ?hold 0 ((fst newMatch)\<lparr>x := 400\<rparr>), ?c)"
    by (rule player_update)
  then have "reachable (?p, ?c)"
    by (rule player_update)
  then have "reachable (fst (checkHitForAttacker ?p ?c), snd (checkHitForAttacker ?p ?c))"
    by (rule player_hits) simp
  then have r: "reachable (checkHitForAttacker ?p ?c)"
    by simp
  have b: "0 \<le> health (snd (checkHitForAttacker ?p ?c))"
    using health_in_range r by blast
  have v: "health (snd (checkHitForAttacker ?p ?c)) = 93"
    by (simp add: checkHitForAttacker_def update_defs newMatch_def newFighter_def
        FIGHTER_WIDTH_def baseDamage_def)
  show ?thesis using r b v by simp
qed

section \<open>The win check\<close>

text \<open>
  Claim C9. If, after the hit detection of a tick, the health of the cpu and the health
  of the player are both at most 0, the tick invokes \<open>handleWin\<close> and not
  \<open>handleLoss\<close>: the health of the cpu is tested first.
\<close>

theorem both_down_is_win:
  assumes "health (snd (afterHits collide dt playerInput nowP cpuInput nowC m)) \<le> 0"
    and "health (fst (afterHits collide dt playerInput nowP cpuInput nowC m)) \<le> 0"
  shows "snd (managerUpdate collide dt playerInput nowP cpuInput nowC m) = HandleWin
     \<and> snd (managerUpdate collide dt playerInput nowP cpuInput nowC m) \<noteq> HandleLoss"
  using assms by (simp add: managerUpdate_def winCondition_def Let_def)

theorem both_down_is_win_witness:
  "health (snd (afterHits (\<lambda>m. m) 0.016
       \<lparr>x_in = 0, y_in = 0, punchHeld = False, kickHeld = False\<rparr> 0
       \<lparr>x_in = 0, y_in = 0, punchHeld = False, kickHeld = False\<rparr> 0
       ((fst newMatch)\<lparr>health := 0\<rparr>, (snd newMatch)\<lparr>health := 0\<rparr>))) \<le> 0
   \<and> health (fst (afterHits (\<lambda>m. m) 0.016
       \<lparr>x_in = 0, y_in = 0, punchHeld = False, kickHeld = False\<rparr> 0
       \<lparr>x_in = 0, y_in = 0, punchHeld = False, kickHeld = False\<rparr> 0
       ((fst newMatch)\<lparr>health := 0\<rparr>, (snd newMatch)\<lparr>health := 0\<rparr>))) \<le> 0
   \<and> snd (managerUpdate (\<lambda>m. m) 0.016
       \<lparr>x_in = 0, y_in = 0, punchHeld = False, kickHeld = False\<rparr> 0
       \<lparr>x_in = 0, y_in = 0, punchHeld = False, kickHeld = False\<rparr> 0
       ((fst newMatch)\<lparr>health := 0\<rparr>, (snd newMatch)\<lparr>health := 0\<rparr>)) = HandleWin"
proof -
  let ?idle = "\<lparr>x_in = 0, y_in = 0, punchHeld = False, kickHeld = False\<rparr>"
  let ?m = "((fst newMatch)\<lparr>health := 0\<rparr>, (snd newMatch)\<lparr>health := 0\<rparr>)"
  have e: "afterHits (\<lambda>m. m) 0.016 ?idle 0 ?idle 0 ?m = ?m"
    by (simp add: afterHits_def checkHits_def checkHitForAttacker_def update_defs
        newMatch_def newFighter_def)
  have c: "health (snd (afterHits (\<lambda>m. m) 0.016 ?idle 0 ?idle 0 ?m)) \<le> 0"
    unfolding e by simp
  have p: "health (fst (afterHits (\<lambda>m. m) 0.016 ?idle 0 ?idle 0 ?m)) \<le> 0"
    unfolding e by simp
  show ?thesis using both_down_is_win [OF c p] c p by simp
qed

section \<open>Overheat\<close>

lemma timers_overheated:
  "state g = OVERHEATED \<Longrightarrow> attackAnimationEnd g = g \<and> stunRecovery g = g"
  by (simp add: attackAnimationEnd_def stunRecovery_def)

lemma checkHit_missed:
  "state a \<noteq> ATTACKING \<or> \<bar>x a - x g\<bar> > FIGHTER_WIDTH * 1.5
     \<Longrightarrow> checkHitForAttacker a g = (a, g)"
  by (auto simp add: checkHitForAttacker_def Let_def)

lemma checkHit_lands_on_overheated:
  assumes "state g = OVERHEATED" and "state a = ATTACKING"
    and "\<bar>x a - x g\<bar> \<le> FIGHTER_WIDTH * 1.5"
  shows "state (snd (checkHitForAttacker a g)) = STUNNED"
  using assms by (simp add: checkHitForAttacker_def Let_def)

lemma undisturbed_overheated:
  assumes "undisturbed f g" and "state f = OVERHEATED" and "chargeLevel f = 0"
  shows "state g = OVERHEATED \<and> chargeLevel g = 0"
  using assms
proof (induction rule: undisturbed.induct)
  case (still f)
  then show ?case by simp
next
  case (by_update f g dt inp now)
  then show ?case by (simp add: update_overheated)
next
  case (by_attack_timer f g)
  then show ?case by (simp add: timers_overheated)
next
  case (by_stun_timer f g)
  then show ?case by (simp add: timers_overheated)
next
  case (by_push f g px)
  then show ?case by simp
next
  case (as_attacker f g d)
  then have "state g \<noteq> ATTACKING" by simp
  then have "checkHitForAttacker g d = (g, d)" by (rule checkHit_not_attacking)
  then show ?case using as_attacker by simp
next
  case (not_hit f g a)
  have "checkHitForAttacker a g = (a, g)"
    using not_hit.hyps(2) by (rule checkHit_missed)
  then show ?case using not_hit by simp
qed

text \<open>
  Claim C4, as the code has it. When an update finds the fighter CHARGING with an
  attack button held and more than \<open>OVERHEAT_TIME\<close> elapsed since the charge started,
  the fighter becomes OVERHEATED with charge level 0. From then on, whatever the match
  does to it short of firing the cooldown callback or landing a hit on it, the fighter
  is still OVERHEATED with charge level 0, and an update with any input, held punch
  or kick included, leaves it exactly as it is. The guarded cooldown callback takes
  it back to IDLE. A hit from an attacker in range is not held off: it replaces
  OVERHEATED by STUNNED.
\<close>

theorem overheat_locks_charge:
  assumes "state f = CHARGING" and "punchHeld inp \<or> kickHeld inp"
    and "now - chargeStartTime f > OVERHEAT_TIME"
    and "undisturbed (update dt inp now f) g"
  shows "state (update dt inp now f) = OVERHEATED
     \<and> chargeLevel (update dt inp now f) = 0
     \<and> state g = OVERHEATED
     \<and> chargeLevel g = 0
     \<and> update dt' inp' now' g = g
     \<and> updates us g = g
     \<and> state (overheatCooldown g) = IDLE
     \<and> (state a = ATTACKING \<and> \<bar>x a - x g\<bar> \<le> FIGHTER_WIDTH * 1.5
          \<longrightarrow> state (snd (checkHitForAttacker a g)) = STUNNED)"
proof -
  have s: "state (update dt inp now f) = OVERHEATED"
    using assms(1-3) by (simp add: update_defs)
  have c: "chargeLevel (update dt inp now f) = 0"
    using assms(1-3) by (simp add: update_defs)
  have g: "state g = OVERHEATED \<and> chargeLevel g = 0"
    using assms(4) s c by (rule undisturbed_overheated)
  have u: "update dt' inp' now' g = g"
    using g by (simp add: update_overheated)
  have us: "updates us g = g"
    using g by (simp add: updates_overheated)
  have k: "state (overheatCooldown g) = IDLE"
    using g by (simp add: overheatCooldown_def)
  have h: "state a = ATTACKING \<and> \<bar>x a - x g\<bar> \<le> FIGHTER_WIDTH * 1.5
          \<longrightarrow> state (snd (checkHitForAttacker a g)) = STUNNED"
    using g by (simp add: checkHit_lands_on_overheated)
  show ?thesis
    using s c g u us k h by blast
qed

theorem overheat_locks_charge_witness:
  "state ((newFighter ''player'' 400)\<lparr>state := CHARGING, attackType := PUNCH\<rparr>) = CHARGING
   \<and> 2.1 - chargeStartTime ((newFighter ''player'' 400)\<lparr>state := CHARGING, attackType := PUNCH\<rparr>)
        > OVERHEAT_TIME
   \<and> undisturbed
        (update 0.016 \<lparr>x_in = 0, y_in = 0, punchHeld = True, kickHeld = False\<rparr> 2.1
          ((newFighter ''player'' 400)\<lparr>state := CHARGING, attackType := PUNCH\<rparr>))
        (update 0.016 \<lparr>x_in = 1, y_in = 0, punchHeld = False, kickHeld = True\<rparr> 2.3
          ((update 0.016 \<lparr>x_in = 0, y_in = 0, punchHeld = True, kickHeld = False\<rparr> 2.2
             (update 0.016 \<lparr>x_in = 0, y_in = 0, punchHeld = True, kickHeld = False\<rparr> 2.1
               ((newFighter ''player'' 400)\<lparr>state := CHARGING, attackType := PUNCH\<rparr>)))
           \<lparr>x := 420\<rparr>))
   \<and> state
        (update 0.016 \<lparr>x_in = 1, y_in = 0, punchHeld = False, kickHeld = True\<rparr> 2.3
          ((update 0.016 \<lparr>x_in = 0, y_in = 0, punchHeld = True, kickHeld = False\<rparr> 2.2
             (update 0.016 \<lparr>x_in = 0, y_in = 0, punchHeld = True, kickHeld = False\<rparr> 2.1
               ((newFighter ''player'' 400)\<lparr>state := CHARGING, attackType := PUNCH\<rparr>)))
           \<lparr>x := 420\<rparr>))
       = OVERHEATED
   \<and> chargeLevel
        (update 0.016 \<lparr>x_in = 1, y_in = 0, punchHeld = False, kickHeld = True\<rparr> 2.3
          ((update 0.016 \<lparr>x_in = 0, y_in = 0, punchHeld = True, kickHeld = False\<rparr> 2.2
             (update 0.016 \<lparr>x_in = 0, y_in = 0, punchHeld = True, kickHeld = False\<rparr> 2.1
               ((newFighter ''player'' 400)\<lparr>state := CHARGING, attackType := PUNCH\<rparr>)))
           \<lparr>x := 420\<rparr>))
       = 0"
proof -
  let ?f = "(newFighter ''player'' 400)\<lparr>state := CHARGING, attackType := PUNCH\<rparr>"
  let ?punch = "\<lparr>x_in = 0, y_in = 0, punchHeld = True, kickHeld = False\<rparr>"
  let ?kick = "\<lparr>x_in = 1, y_in = 0, punchHeld = False, kickHeld = True\<rparr>"
  let ?start = "update 0.016 ?punch 2.1 ?f"
  let ?g = "update 0.016 ?kick 2.3 ((update 0.016 ?punch 2.2 ?start)\<lparr>x := 420\<rparr>)"
  have a: "state ?f = CHARGING"
    by simp
  have b: "punchHeld ?punch \<or> kickHeld ?punch"
    by simp
  have c: "2.1 - chargeStartTime ?f > OVERHEAT_TIME"
    by (simp add: newFighter_def OVERHEAT_TIME_def)
  have "undisturbed ?start ?start"
    by (rule still)
  then have "undisturbed ?start (update 0.016 ?punch 2.2 ?start)"
    by (rule by_update)
  then have "undisturbed ?start ((update 0.016 ?punch 2.2 ?start)\<lparr>x := 420\<rparr>)"
    by (rule by_push)
  then have d: "undisturbed ?start ?g"
    by (rule by_update)
  note w = overheat_locks_charge [OF a b c d]
  have s: "state ?g = OVERHEATED"
    by (rule w [THEN conjunct2, THEN conjunct2, THEN conjunct1])
  have l: "chargeLevel ?g = 0"
    by (rule w [THEN conjunct2, THEN conjunct2, THEN conjunct2, THEN conjunct1])
  show ?thesis
    by (intro conjI a c d s l)
qed

text \<open>
  A hit ends the overheat before any cooldown. The player overheats at clock value 2.1;
  the cpu, 50 units away, releases a punch in the same tick and hit detection stuns
  the player; with punch still held, the next update starts a new charge, and half a
  second later the charge level is 0.5.
\<close>

theorem overheat_hit_counterexample:
  "state (update 0.016 \<lparr>x_in = 0, y_in = 0, punchHeld = True, kickHeld = False\<rparr> 2.1
      (update 0.016 \<lparr>x_in = 0, y_in = 0, punchHeld = True, kickHeld = False\<rparr> 0
        (newFighter ''player'' 400))) = OVERHEATED
   \<and> state (update 0.016 \<lparr>x_in = 0, y_in = 0, punchHeld = True, kickHeld = False\<rparr> 2.116
      (snd (checkHitForAttacker
        (update 0.016 \<lparr>x_in = 0, y_in = 0, punchHeld = False, kickHeld = False\<rparr> 2.1
          (update 0.016 \<lparr>x_in = 0, y_in = 0, punchHeld = True, kickHeld = False\<rparr> 1.5
            (newFighter ''cpu'' 450)))
        (update 0.016 \<lparr>x_in = 0, y_in = 0, punchHeld = True, kickHeld = False\<rparr> 2.1
          (update 0.016 \<lparr>x_in = 0, y_in = 0, punchHeld = True, kickHeld = False\<rparr> 0
            (newFighter ''player'' 400)))))) = CHARGING
   \<and> chargeLevel (update 0.016 \<lparr>x_in = 0, y_in = 0, punchHeld = True, kickHeld = False\<rparr> 2.616
      (update 0.016 \<lparr>x_in = 0, y_in = 0, punchHeld = True, kickHeld = False\<rparr> 2.116
        (snd (checkHitForAttacker
          (update 0.016 \<lparr>x_in = 0, y_in = 0, punchHeld = False, kickHeld = False\<rparr> 2.1
            (update 0.016 \<lparr>x_in = 0, y_in = 0, punchHeld = True, kickHeld = False\<rparr> 1.5
              (newFighter ''cpu'' 450)))
          (update 0.016 \<lparr>x_in = 0, y_in = 0, punchHeld = True, kickHeld = False\<rparr> 2.1
            (update 0.016 \<lparr>x_in = 0, y_in = 0, punchHeld = True, kickHeld = False\<rparr> 0
              (newFighter ''player'' 400))))))) = 0.5"
  by (simp add: update_defs checkHitForAttacker_def newFighter_def baseDamage_def
      MAX_CHARGE_TIME_def OVERHEAT_TIME_def FIGHTER_WIDTH_def)

section \<open>Blocked attacks leave the attacker alone\<close>

lemma checkHit_perfect_block:
  assumes "state d = BLOCKING_HIGH \<and> attackHeight a = HIGH
           \<or> state d = BLOCKING_LOW \<and> attackHeight a = LOW"
  shows "checkHitForAttacker a d = (a, d)"
  using assms by (auto simp add: checkHitForAttacker_def Let_def)

lemma update_blocking:
  assumes "state c = BLOCKING_HIGH \<or> state c = BLOCKING_LOW"
    and "y_in cpuInput > 0.5 \<or> y_in cpuInput < - 0.5"
  shows "update dt cpuInput nowC c =
      c\<lparr>state := (if y_in cpuInput > 0.5 then BLOCKING_HIGH else BLOCKING_LOW)\<rparr>"
  using assms by (elim disjE) (simp_all add: update_defs)

text \<open>
  One whole tick with the player attacking MID, the cpu holding a block and the two
  fighters left where they are by the collision step.
\<close>

lemma chip_tick:
  assumes "state p = ATTACKING" and "attackHeight p = MID"
    and "\<bar>x p - x c\<bar> \<le> FIGHTER_WIDTH * 1.5"
    and "state c = BLOCKING_HIGH \<or> state c = BLOCKING_LOW"
    and "y_in cpuInput > 0.5 \<or> y_in cpuInput < - 0.5"
  shows "afterHits (\<lambda>m. m) dt playerInput nowP cpuInput nowC (p, c) =
           (p, c\<lparr>state := (if y_in cpuInput > 0.5 then BLOCKING_HIGH else BLOCKING_LOW),
                 health := max 0 (health c - chipDamage)\<rparr>)"
proof -
  define c1 where
    "c1 = c\<lparr>state := (if y_in cpuInput > 0.5 then BLOCKING_HIGH else BLOCKING_LOW)\<rparr>"
  have up: "update dt playerInput nowP p = p"
    using assms(1) by (rule update_attacking)
  have uc: "update dt cpuInput nowC c = c1"
    unfolding c1_def using assms(4,5) by (rule update_blocking)
  have b: "state c1 = BLOCKING_HIGH \<or> state c1 = BLOCKING_LOW"
    by (simp add: c1_def)
  have r: "\<bar>x p - x c1\<bar> \<le> FIGHTER_WIDTH * 1.5"
    using assms(3) by (simp add: c1_def)
  have h1: "checkHitForAttacker p c1 = (p, c1\<lparr>health := max 0 (health c1 - chipDamage)\<rparr>)"
    using assms(1,2) r b by (rule checkHit_chip)
  have h2: "checkHitForAttacker (c1\<lparr>health := max 0 (health c1 - chipDamage)\<rparr>) p
      = (c1\<lparr>health := max 0 (health c1 - chipDamage)\<rparr>, p)"
    using b by (intro checkHit_not_attacking) auto
  have "afterHits (\<lambda>m. m) dt playerInput nowP cpuInput nowC (p, c)
      = (p, c1\<lparr>health := max 0 (health c1 - chipDamage)\<rparr>)"
    by (simp add: afterHits_def up uc checkHits_def h1 h2)
  then show ?thesis by (simp add: c1_def)
qed

lemma chip_ticks:
  assumes "state p = ATTACKING" and "attackHeight p = MID"
    and "\<bar>x p - x c\<bar> \<le> FIGHTER_WIDTH * 1.5"
    and "state c = BLOCKING_HIGH \<or> state c = BLOCKING_LOW"
    and "\<forall>(dt, playerInput, nowP, cpuInput, nowC) \<in> set ts.
           y_in cpuInput > 0.5 \<or> y_in cpuInput < - 0.5"
    and "0 \<le> health c"
  shows "fst (ticks (\<lambda>m. m) ts (p, c)) = p
     \<and> health (snd (ticks (\<lambda>m. m) ts (p, c)))
         = max 0 (health c - real (length ts) * chipDamage)
     \<and> (state (snd (ticks (\<lambda>m. m) ts (p, c))) = BLOCKING_HIGH
          \<or> state (snd (ticks (\<lambda>m. m) ts (p, c))) = BLOCKING_LOW)"
  using assms(3-6)
proof (induction ts arbitrary: c)
  case Nil
  then show ?case by simp
next
  case (Cons t ts)
  obtain dt playerInput nowP cpuInput nowC
    where t: "t = (dt, playerInput, nowP, cpuInput, nowC)"
    by (cases t) auto
  define c' where
    "c' = c\<lparr>state := (if y_in cpuInput > 0.5 then BLOCKING_HIGH else BLOCKING_LOW),
            health := max 0 (health c - chipDamage)\<rparr>"
  have y: "y_in cpuInput > 0.5 \<or> y_in cpuInput < - 0.5"
    using Cons.prems(3) t by simp
  have step: "afterHits (\<lambda>m. m) dt playerInput nowP cpuInput nowC (p, c) = (p, c')"
    unfolding c'_def using assms(1,2) Cons.prems(1,2) y by (rule chip_tick)
  have 1: "\<bar>x p - x c'\<bar> \<le> FIGHTER_WIDTH * 1.5"
    using Cons.prems(1) by (simp add: c'_def)
  have 2: "state c' = BLOCKING_HIGH \<or> state c' = BLOCKING_LOW"
    by (simp add: c'_def)
  have 3: "\<forall>(dt, playerInput, nowP, cpuInput, nowC) \<in> set ts.
             y_in cpuInput > 0.5 \<or> y_in cpuInput < - 0.5"
    using Cons.prems(3) by simp
  have 4: "0 \<le> health c'"
    by (simp add: c'_def)
  have h: "max 0 (health c' - real (length ts) * chipDamage)
      = max 0 (health c - real (length (t # ts)) * chipDamage)"
    using Cons.prems(4) by (simp add: c'_def chipDamage_def max_def)
  have e: "ticks (\<lambda>m. m) (t # ts) (p, c) = ticks (\<lambda>m. m) ts (p, c')"
    by (simp only: t ticks.simps step)
  show ?case
    unfolding e using Cons.IH [OF 1 2 3 4] h by simp
qed

text \<open>
  Claim C8. On the perfect-block branch and on the chip branch, hit detection returns
  the attacker as it was, every field included; only the remaining branch resets it.
  So while the player stays ATTACKING with a MID attack, the cpu keeps holding a block
  within range and the collision step moves nobody, every tick subtracts the chip
  amount again: after a run of ticks the player is unchanged, the cpu is still
  blocking, and its health is down by the chip amount times the number of ticks,
  clamped at 0.
\<close>

theorem blocked_attacker_unchanged:
  assumes "state p = ATTACKING" and "\<bar>x p - x c\<bar> \<le> FIGHTER_WIDTH * 1.5"
  shows "(state c = BLOCKING_HIGH \<and> attackHeight p = HIGH
            \<or> state c = BLOCKING_LOW \<and> attackHeight p = LOW
          \<longrightarrow> fst (checkHitForAttacker p c) = p)
     \<and> ((state c = BLOCKING_HIGH \<or> state c = BLOCKING_LOW) \<and> attackHeight p = MID
          \<longrightarrow> fst (checkHitForAttacker p c) = p)
     \<and> (\<not> (state c = BLOCKING_HIGH \<and> attackHeight p = HIGH
              \<or> state c = BLOCKING_LOW \<and> attackHeight p = LOW)
          \<and> \<not> ((state c = BLOCKING_HIGH \<or> state c = BLOCKING_LOW) \<and> attackHeight p = MID)
          \<longrightarrow> fst (checkHitForAttacker p c) = p\<lparr>state := IDLE, attackType := NONE\<rparr>
              \<and> fst (checkHitForAttacker p c) \<noteq> p)
     \<and> ((state c = BLOCKING_HIGH \<or> state c = BLOCKING_LOW) \<and> attackHeight p = MID
          \<and> 0 \<le> health c
          \<and> (\<forall>(dt, playerInput, nowP, cpuInput, nowC) \<in> set ts.
                 y_in cpuInput > 0.5 \<or> y_in cpuInput < - 0.5)
          \<longrightarrow> fst (ticks (\<lambda>m. m) ts (p, c)) = p
              \<and> health (snd (ticks (\<lambda>m. m) ts (p, c)))
                  = max 0 (health c - real (length ts) * chipDamage)
              \<and> (state (snd (ticks (\<lambda>m. m) ts (p, c))) = BLOCKING_HIGH
                   \<or> state (snd (ticks (\<lambda>m. m) ts (p, c))) = BLOCKING_LOW))"
proof (intro conjI impI)
  assume "state c = BLOCKING_HIGH \<and> attackHeight p = HIGH
            \<or> state c = BLOCKING_LOW \<and> attackHeight p = LOW"
  then show "fst (checkHitForAttacker p c) = p"
    by (simp add: checkHit_perfect_block)
next
  assume "(state c = BLOCKING_HIGH \<or> state c = BLOCKING_LOW) \<and> attackHeight p = MID"
  then show "fst (checkHitForAttacker p c) = p"
    using checkHit_chip [OF assms(1) _ assms(2)] by simp
next
  assume n: "\<not> (state c = BLOCKING_HIGH \<and> attackHeight p = HIGH
              \<or> state c = BLOCKING_LOW \<and> attackHeight p = LOW)
          \<and> \<not> ((state c = BLOCKING_HIGH \<or> state c = BLOCKING_LOW) \<and> attackHeight p = MID)"
  then show r: "fst (checkHitForAttacker p c) = p\<lparr>state := IDLE, attackType := NONE\<rparr>"
    using assms by (auto simp add: checkHitForAttacker_def Let_def)
  have "state (fst (checkHitForAttacker p c)) \<noteq> state p"
    unfolding r using assms(1) by simp
  then show "fst (checkHitForAttacker p c) \<noteq> p"
    by auto
next
  assume a: "(state c = BLOCKING_HIGH \<or> state c = BLOCKING_LOW) \<and> attackHeight p = MID
          \<and> 0 \<le> health c
          \<and> (\<forall>(dt, playerInput, nowP, cpuInput, nowC) \<in> set ts.
                 y_in cpuInput > 0.5 \<or> y_in cpuInput < - 0.5)"
  have b: "state c = BLOCKING_HIGH \<or> state c = BLOCKING_LOW" using a by simp
  have m: "attackHeight p = MID" using a by simp
  have h: "0 \<le> health c" using a by simp
  have k: "\<forall>(dt, playerInput, nowP, cpuInput, nowC) \<in> set ts.
                 y_in cpuInput > 0.5 \<or> y_in cpuInput < - 0.5" using a by simp
  note all = chip_ticks [OF assms(1) m assms(2) b k h]
  show "fst (ticks (\<lambda>m. m) ts (p, c)) = p"
    using all by simp
  show "health (snd (ticks (\<lambda>m. m) ts (p, c)))
          = max 0 (health c - real (length ts) * chipDamage)"
    using all by simp
  show "state (snd (ticks (\<lambda>m. m) ts (p, c))) = BLOCKING_HIGH
          \<or> state (snd (ticks (\<lambda>m. m) ts (p, c))) = BLOCKING_LOW"
    using all by simp
qed

theorem blocked_attacker_unchanged_witness:
  "state ((newFighter ''player'' 400)\<lparr>state := ATTACKING, attackType := PUNCH\<rparr>) = ATTACKING
   \<and> \<bar>x ((newFighter ''player'' 400)\<lparr>state := ATTACKING, attackType := PUNCH\<rparr>)
        - x ((newFighter ''cpu'' 520)\<lparr>state := BLOCKING_HIGH\<rparr>)\<bar> \<le> FIGHTER_WIDTH * 1.5
   \<and> fst (ticks (\<lambda>m. m)
        [(0.016, \<lparr>x_in = 0, y_in = 0, punchHeld = False, kickHeld = False\<rparr>, 1,
                 \<lparr>x_in = 0, y_in = 1, punchHeld = False, kickHeld = False\<rparr>, 1),
         (0.016, \<lparr>x_in = 0, y_in = 0, punchHeld = False, kickHeld = False\<rparr>, 1.016,
                 \<lparr>x_in = 0, y_in = 1, punchHeld = False, kickHeld = False\<rparr>, 1.016),
         (0.016, \<lparr>x_in = 0, y_in = 0, punchHeld = False, kickHeld = False\<rparr>, 1.032,
                 \<lparr>x_in = 0, y_in = - 1, punchHeld = False, kickHeld = False\<rparr>, 1.032)]
        ((newFighter ''player'' 400)\<lparr>state := ATTACKING, attackType := PUNCH\<rparr>,
         (newFighter ''cpu'' 520)\<lparr>state := BLOCKING_HIGH\<rparr>))
       = (newFighter ''player'' 400)\<lparr>state := ATTACKING, attackType := PUNCH\<rparr>
   \<and> health (snd (ticks (\<lambda>m. m)
        [(0.016, \<lparr>x_in = 0, y_in = 0, punchHeld = False, kickHeld = False\<rparr>, 1,
                 \<lparr>x_in = 0, y_in = 1, punchHeld = False, kickHeld = False\<rparr>, 1),
         (0.016, \<lparr>x_in = 0, y_in = 0, punchHeld = False, kickHeld = False\<rparr>, 1.016,
                 \<lparr>x_in = 0, y_in = 1, punchHeld = False, kickHeld = False\<rparr>, 1.016),
         (0.016, \<lparr>x_in = 0, y_in = 0, punchHeld = False, kickHeld = False\<rparr>, 1.032,
                 \<lparr>x_in = 0, y_in = - 1, punchHeld = False, kickHeld = False\<rparr>, 1.032)]
        ((newFighter ''player'' 400)\<lparr>state := ATTACKING, attackType := PUNCH\<rparr>,
         (newFighter ''cpu'' 520)\<lparr>state := BLOCKING_HIGH\<rparr>)))
       = 94"
proof -
  let ?p = "(newFighter ''player'' 400)\<lparr>state := ATTACKING, attackType := PUNCH\<rparr>"
  let ?c = "(newFighter ''cpu'' 520)\<lparr>state := BLOCKING_HIGH\<rparr>"
  let ?idle = "\<lparr>x_in = 0, y_in = 0, punchHeld = False, kickHeld = False\<rparr>"
  let ?up = "\<lparr>x_in = 0, y_in = 1, punchHeld = False, kickHeld = False\<rparr>"
  let ?down = "\<lparr>x_in = 0, y_in = - 1, punchHeld = False, kickHeld = False\<rparr>"
  let ?ts = "[(0.016 :: real, ?idle, 1 :: real, ?up, 1 :: real),
              (0.016, ?idle, 1.016, ?up, 1.016),
              (0.016, ?idle, 1.032, ?down, 1.032)]"
  have a: "state ?p = ATTACKING"
    by simp
  have r: "\<bar>x ?p - x ?c\<bar> \<le> FIGHTER_WIDTH * 1.5"
    by (simp add: newFighter_def FIGHTER_WIDTH_def)
  have pre: "(state ?c = BLOCKING_HIGH \<or> state ?c = BLOCKING_LOW) \<and> attackHeight ?p = MID
          \<and> 0 \<le> health ?c
          \<and> (\<forall>(dt, playerInput, nowP, cpuInput, nowC) \<in> set ?ts.
                 y_in cpuInput > 0.5 \<or> y_in cpuInput < - 0.5)"
    by (simp add: newFighter_def)
  note run = blocked_attacker_unchanged
      [OF a r, THEN conjunct2, THEN conjunct2, THEN conjunct2, THEN mp, OF pre]
  have f: "fst (ticks (\<lambda>m. m) ?ts (?p, ?c)) = ?p"
    by (rule run [THEN conjunct1])
  have "health (snd (ticks (\<lambda>m. m) ?ts (?p, ?c)))
          = max 0 (health ?c - real (length ?ts) * chipDamage)"
    by (rule run [THEN conjunct2, THEN conjunct1])
  also have "max 0 (health ?c - real (length ?ts) * chipDamage) = 94"
    by (simp add: newFighter_def chipDamage_def)
  finally have h: "health (snd (ticks (\<lambda>m. m) ?ts (?p, ?c))) = 94" .
  show ?thesis
    by (intro conjI a r f h)
qed

section \<open>Charge level while the button is held\<close>

text \<open>
  A charge that started at clock value \<open>t0\<close> and is still being held: the fighter is
  CHARGING and its recorded start time is \<open>t0\<close>.
\<close>

lemma update_fresh_start:
  assumes "state f0 \<noteq> CHARGING" and "state (update dt0 inp0 t0 f0) = CHARGING"
  shows "chargeStartTime (update dt0 inp0 t0 f0) = t0
     \<and> chargeLevel (update dt0 inp0 t0 f0) = 0"
  using assms by (auto simp add: update_defs split: if_splits)

lemma update_held:
  assumes "state f = CHARGING" and "punchHeld inp \<or> kickHeld inp"
    and "now - chargeStartTime f \<le> OVERHEAT_TIME"
  shows "state (update dt inp now f) = CHARGING
     \<and> chargeStartTime (update dt inp now f) = chargeStartTime f
     \<and> chargeLevel (update dt inp now f) = min ((now - chargeStartTime f) / MAX_CHARGE_TIME) 1"
  using assms by (simp add: update_defs)

lemma updates_held:
  assumes "state f = CHARGING"
    and "\<forall>(dt, inp, now) \<in> set us.
           (punchHeld inp \<or> kickHeld inp) \<and> now - chargeStartTime f \<le> OVERHEAT_TIME"
  shows "state (updates us f) = CHARGING
     \<and> chargeStartTime (updates us f) = chargeStartTime f"
  using assms
proof (induction us arbitrary: f)
  case Nil
  then show ?case by simp
next
  case (Cons u us)
  obtain dt inp now where u: "u = (dt, inp, now)"
    by (cases u) auto
  have h: "punchHeld inp \<or> kickHeld inp" and n: "now - chargeStartTime f \<le> OVERHEAT_TIME"
    using Cons.prems(2) u by simp_all
  note one = update_held [OF Cons.prems(1) h n, of dt]
  have s: "state (update dt inp now f) = CHARGING"
    using one by simp
  have c: "chargeStartTime (update dt inp now f) = chargeStartTime f"
    using one by simp
  have r: "\<forall>(dt', inp', now') \<in> set us.
           (punchHeld inp' \<or> kickHeld inp')
           \<and> now' - chargeStartTime (update dt inp now f) \<le> OVERHEAT_TIME"
    unfolding c using Cons.prems(2) by simp
  show ?case
    using Cons.IH [OF s r] c by (simp add: u)
qed

lemma charge_after_hold:
  assumes "state f0 \<noteq> CHARGING" and "state (update dt0 inp0 t0 f0) = CHARGING"
    and "\<forall>(dt', inp', now') \<in> set us.
           (punchHeld inp' \<or> kickHeld inp') \<and> now' - t0 \<le> OVERHEAT_TIME"
    and "punchHeld inp \<or> kickHeld inp"
  shows "t \<le> OVERHEAT_TIME \<Longrightarrow>
           chargeLevel (update dt inp (t0 + t) (updates us (update dt0 inp0 t0 f0)))
             = min (t / MAX_CHARGE_TIME) 1"
    and "t > OVERHEAT_TIME \<Longrightarrow>
           chargeLevel (update dt inp (t0 + t) (updates us (update dt0 inp0 t0 f0))) = 0
           \<and> state (update dt inp (t0 + t) (updates us (update dt0 inp0 t0 f0))) = OVERHEATED"
proof -
  define f1 where "f1 = update dt0 inp0 t0 f0"
  have st: "chargeStartTime f1 = t0"
    unfolding f1_def using update_fresh_start [OF assms(1,2)] by simp
  have s1: "state f1 = CHARGING"
    unfolding f1_def by (rule assms(2))
  have held: "\<forall>(dt', inp', now') \<in> set us.
           (punchHeld inp' \<or> kickHeld inp') \<and> now' - chargeStartTime f1 \<le> OVERHEAT_TIME"
    unfolding st by (rule assms(3))
  note run = updates_held [OF s1 held]
  have s2: "state (updates us f1) = CHARGING"
    using run by simp
  have c2: "chargeStartTime (updates us f1) = t0"
    using run st by simp
  show "chargeLevel (update dt inp (t0 + t) (updates us (update dt0 inp0 t0 f0)))
             = min (t / MAX_CHARGE_TIME) 1" if "t \<le> OVERHEAT_TIME"
  proof -
    have "(t0 + t) - chargeStartTime (updates us f1) \<le> OVERHEAT_TIME"
      using that c2 by simp
    from update_held [OF s2 assms(4) this, of dt]
    have "chargeLevel (update dt inp (t0 + t) (updates us f1))
        = min ((t0 + t - t0) / MAX_CHARGE_TIME) 1"
      by (simp add: c2)
    then show ?thesis by (simp add: f1_def)
  qed
  show "chargeLevel (update dt inp (t0 + t) (updates us (update dt0 inp0 t0 f0))) = 0
           \<and> state (update dt inp (t0 + t) (updates us (update dt0 inp0 t0 f0))) = OVERHEATED"
    if "t > OVERHEAT_TIME"
  proof -
    have o: "(t0 + t) - chargeStartTime (updates us f1) > OVERHEAT_TIME"
      using that c2 by simp
    have "state (update dt inp (t0 + t) (updates us f1)) = OVERHEATED
        \<and> chargeLevel (update dt inp (t0 + t) (updates us f1)) = 0"
      using s2 assms(4) o by (simp add: update_defs)
    then show ?thesis by (simp add: f1_def)
  qed
qed

text \<open>
  Claim C3, as the code has it. The elapsed time of a charge is the duration the
  update computes: the clock value it reads minus the start time the fighter recorded,
  written \<open>now - t0\<close> below. Every later step of the computation (the division by
  \<open>MAX_CHARGE_TIME\<close>, which is 1, the minimum with 1, the comparison with
  \<open>OVERHEAT_TIME\<close>) works on that computed duration and on nothing else. From a fresh
  charge start at \<open>t0\<close>, with a button held at every update since, the update whose
  computed duration is \<open>t = now - t0 \<ge> 0\<close> sets the charge level to
  \<open>clamp(t / MAX_CHARGE_TIME, 0, 1)\<close> and stays CHARGING as long as \<open>t\<close> is at most
  \<open>OVERHEAT_TIME\<close>; the charge level is 0 right at the start and exactly 1 when the
  computed duration equals \<open>MAX_CHARGE_TIME\<close>. When the computed duration exceeds
  \<open>OVERHEAT_TIME\<close> the same update makes the fighter OVERHEATED and the charge level 0.
\<close>

theorem chargeLevel_while_held:
  assumes "state f0 \<noteq> CHARGING" and "state (update dt0 inp0 t0 f0) = CHARGING"
    and "\<forall>(dt', inp', now') \<in> set us.
           (punchHeld inp' \<or> kickHeld inp') \<and> now' - t0 \<le> OVERHEAT_TIME"
    and "punchHeld inp \<or> kickHeld inp"
    and "0 \<le> now - t0"
  shows "chargeLevel (update dt0 inp0 t0 f0) = 0
     \<and> chargeStartTime (updates us (update dt0 inp0 t0 f0)) = t0
     \<and> (now - t0 \<le> OVERHEAT_TIME \<longrightarrow>
           chargeLevel (update dt inp now (updates us (update dt0 inp0 t0 f0)))
             = max 0 (min ((now - t0) / MAX_CHARGE_TIME) 1)
           \<and> state (update dt inp now (updates us (update dt0 inp0 t0 f0))) = CHARGING)
     \<and> (now - t0 = MAX_CHARGE_TIME \<longrightarrow>
           chargeLevel (update dt inp now (updates us (update dt0 inp0 t0 f0))) = 1)
     \<and> (now - t0 > OVERHEAT_TIME \<longrightarrow>
           chargeLevel (update dt inp now (updates us (update dt0 inp0 t0 f0))) = 0
           \<and> state (update dt inp now (updates us (update dt0 inp0 t0 f0))) = OVERHEATED)"
proof -
  define f1 where "f1 = updates us (update dt0 inp0 t0 f0)"
  have st: "chargeStartTime (update dt0 inp0 t0 f0) = t0"
    using update_fresh_start [OF assms(1,2)] by simp
  have held: "\<forall>(dt', inp', now') \<in> set us.
           (punchHeld inp' \<or> kickHeld inp')
           \<and> now' - chargeStartTime (update dt0 inp0 t0 f0) \<le> OVERHEAT_TIME"
    unfolding st by (rule assms(3))
  have s1: "state f1 = CHARGING"
    unfolding f1_def using updates_held [OF assms(2) held] by simp
  have c1: "chargeStartTime f1 = t0"
    unfolding f1_def using updates_held [OF assms(2) held] st by simp
  have 1: "chargeLevel (update dt0 inp0 t0 f0) = 0"
    using update_fresh_start [OF assms(1,2)] by simp
  have 2: "chargeLevel (update dt inp now f1) = max 0 (min ((now - t0) / MAX_CHARGE_TIME) 1)
           \<and> state (update dt inp now f1) = CHARGING"
    if le: "now - t0 \<le> OVERHEAT_TIME"
  proof -
    have "now - chargeStartTime f1 \<le> OVERHEAT_TIME"
      using le c1 by simp
    from update_held [OF s1 assms(4) this, of dt]
    have "state (update dt inp now f1) = CHARGING"
      and "chargeLevel (update dt inp now f1) = min ((now - t0) / MAX_CHARGE_TIME) 1"
      by (simp_all add: c1)
    moreover have "0 \<le> min ((now - t0) / MAX_CHARGE_TIME) 1"
      using assms(5) by (simp add: MAX_CHARGE_TIME_def)
    ultimately show ?thesis by simp
  qed
  have 3: "chargeLevel (update dt inp now f1) = 1" if eq: "now - t0 = MAX_CHARGE_TIME"
  proof -
    have "now - t0 \<le> OVERHEAT_TIME"
      using eq by (simp add: MAX_CHARGE_TIME_def OVERHEAT_TIME_def)
    from 2 [OF this] show ?thesis
      using eq by (simp add: MAX_CHARGE_TIME_def)
  qed
  have 4: "chargeLevel (update dt inp now f1) = 0 \<and> state (update dt inp now f1) = OVERHEATED"
    if gt: "now - t0 > OVERHEAT_TIME"
  proof -
    have "now - chargeStartTime f1 > OVERHEAT_TIME"
      using gt c1 by simp
    then show ?thesis
      using s1 assms(4) by (simp add: update_defs)
  qed
  show ?thesis
    unfolding f1_def [symmetric] using 1 c1 2 3 4 by blast
qed

theorem chargeLevel_while_held_witness:
  "state (newFighter ''player'' 400) \<noteq> CHARGING
   \<and> state (update 0.016 \<lparr>x_in = 0, y_in = 0, punchHeld = True, kickHeld = False\<rparr> 0.25
        (newFighter ''player'' 400)) = CHARGING
   \<and> (0 :: real) \<le> 1.25 - 0.25
   \<and> chargeLevel (update 0.016 \<lparr>x_in = 0, y_in = 0, punchHeld = True, kickHeld = False\<rparr> 1.25
        (updates [(0.016, \<lparr>x_in = 0, y_in = 0, punchHeld = True, kickHeld = False\<rparr>, 0.75)]
          (update 0.016 \<lparr>x_in = 0, y_in = 0, punchHeld = True, kickHeld = False\<rparr> 0.25
            (newFighter ''player'' 400)))) = 1"
proof -
  let ?punch = "\<lparr>x_in = 0, y_in = 0, punchHeld = True, kickHeld = False\<rparr>"
  let ?f0 = "newFighter ''player'' 400"
  let ?us = "[(0.016 :: real, ?punch, 0.75 :: real)]"
  have a: "state ?f0 \<noteq> CHARGING"
    by (simp add: newFighter_def)
  have b: "state (update 0.016 ?punch 0.25 ?f0) = CHARGING"
    by (simp add: update_defs newFighter_def)
  have c: "\<forall>(dt', inp', now') \<in> set ?us.
           (punchHeld inp' \<or> kickHeld inp') \<and> now' - 0.25 \<le> OVERHEAT_TIME"
    by (simp add: OVERHEAT_TIME_def)
  have d: "punchHeld ?punch \<or> kickHeld ?punch"
    by simp
  have e: "(0 :: real) \<le> 1.25 - 0.25"
    by simp
  have m: "(1.25 :: real) - 0.25 = MAX_CHARGE_TIME"
    by (simp add: MAX_CHARGE_TIME_def)
  note w = chargeLevel_while_held [OF a b c d e, of "0.016"]
  have v: "chargeLevel (update 0.016 ?punch 1.25 (updates ?us (update 0.016 ?punch 0.25 ?f0))) = 1"
    by (rule w [THEN conjunct2, THEN conjunct2, THEN conjunct2, THEN conjunct1, THEN mp, OF m])
  show ?thesis
    by (intro conjI a b e v)
qed

text \<open>
  The bound on the duration is needed: held from clock value 0, the update at 2.5
  seconds leaves charge level 0, while \<open>clamp(2.5 / MAX_CHARGE_TIME, 0, 1)\<close> is 1.
\<close>

theorem chargeLevel_clamp_counterexample:
  "chargeLevel (update 0.016 \<lparr>x_in = 0, y_in = 0, punchHeld = True, kickHeld = False\<rparr> 2.5
      (update 0.016 \<lparr>x_in = 0, y_in = 0, punchHeld = True, kickHeld = False\<rparr> 0
        (newFighter ''player'' 400))) = 0
   \<and> max 0 (min (2.5 / MAX_CHARGE_TIME) 1) = (1 :: real)"
  by (simp add: update_defs newFighter_def MAX_CHARGE_TIME_def OVERHEAT_TIME_def)

section \<open>Wind-up progress\<close>

text \<open>
  Claim C5. Let the wind-up time be positive and smaller than \<open>MAX_CHARGE_TIME\<close>. While
  a charge that started at \<open>t0\<close> is held, the wind-up progress at elapsed time
  \<open>t \<ge> 0\<close>, taken from the start time the fighter recorded, is \<open>min(t / WIND_UP_TIME, 1)\<close>
  and lies in [0, 1]. At \<open>t = WIND_UP_TIME\<close> it is exactly 1, while the charge level
  set by the update at that instant is \<open>WIND_UP_TIME / MAX_CHARGE_TIME\<close>, which is
  below 1.
\<close>

theorem windUp_before_charge:
  assumes "0 < w" and "w < MAX_CHARGE_TIME"
    and "state f0 \<noteq> CHARGING" and "state (update dt0 inp0 t0 f0) = CHARGING"
    and "\<forall>(dt', inp', now') \<in> set us.
           (punchHeld inp' \<or> kickHeld inp') \<and> now' - t0 \<le> OVERHEAT_TIME"
    and "punchHeld inp \<or> kickHeld inp"
    and "0 \<le> t"
  shows "windUpProgress w
           ((t0 + t) - chargeStartTime (updates us (update dt0 inp0 t0 f0)))
           = min (t / w) 1
     \<and> 0 \<le> windUpProgress w t \<and> windUpProgress w t \<le> 1
     \<and> windUpProgress w w = 1
     \<and> chargeLevel (update dt inp (t0 + w) (updates us (update dt0 inp0 t0 f0)))
          = w / MAX_CHARGE_TIME
     \<and> w / MAX_CHARGE_TIME < 1"
proof -
  have st: "chargeStartTime (update dt0 inp0 t0 f0) = t0"
    using update_fresh_start [OF assms(3,4)] by simp
  have held: "\<forall>(dt', inp', now') \<in> set us.
           (punchHeld inp' \<or> kickHeld inp')
           \<and> now' - chargeStartTime (update dt0 inp0 t0 f0) \<le> OVERHEAT_TIME"
    unfolding st by (rule assms(5))
  have c: "chargeStartTime (updates us (update dt0 inp0 t0 f0)) = t0"
    using updates_held [OF assms(4) held] st by simp
  have 1: "windUpProgress w
           ((t0 + t) - chargeStartTime (updates us (update dt0 inp0 t0 f0)))
           = min (t / w) 1"
    by (simp add: c windUpProgress_def)
  have 2: "0 \<le> windUpProgress w t \<and> windUpProgress w t \<le> 1"
    using assms(1,7) by (simp add: windUpProgress_def)
  have 3: "windUpProgress w w = 1"
    using assms(1) by (simp add: windUpProgress_def)
  have le: "w \<le> OVERHEAT_TIME"
    using assms(2) by (simp add: MAX_CHARGE_TIME_def OVERHEAT_TIME_def)
  have 5: "w / MAX_CHARGE_TIME < 1"
    using assms(2) by (simp add: MAX_CHARGE_TIME_def)
  have 4: "chargeLevel (update dt inp (t0 + w) (updates us (update dt0 inp0 t0 f0)))
          = w / MAX_CHARGE_TIME"
    using charge_after_hold(1) [OF assms(3-6) le] 5 by simp
  show ?thesis
    using 1 2 3 4 5 by blast
qed

theorem windUp_before_charge_witness:
  "(0 :: real) < 0.5 \<and> 0.5 < MAX_CHARGE_TIME
   \<and> state (newFighter ''player'' 400) \<noteq> CHARGING
   \<and> state (update 0.016 \<lparr>x_in = 0, y_in = 0, punchHeld = True, kickHeld = False\<rparr> 0
        (newFighter ''player'' 400)) = CHARGING
   \<and> windUpProgress 0.5 0.5 = 1
   \<and> chargeLevel (update 0.016 \<lparr>x_in = 0, y_in = 0, punchHeld = True, kickHeld = False\<rparr>
        (0 + 0.5)
        (updates [(0.016, \<lparr>x_in = 0, y_in = 0, punchHeld = True, kickHeld = False\<rparr>, 0.25)]
          (update 0.016 \<lparr>x_in = 0, y_in = 0, punchHeld = True, kickHeld = False\<rparr> 0
            (newFighter ''player'' 400)))) = 0.5 / MAX_CHARGE_TIME"
proof -
  let ?punch = "\<lparr>x_in = 0, y_in = 0, punchHeld = True, kickHeld = False\<rparr>"
  let ?f0 = "newFighter ''player'' 400"
  let ?us = "[(0.016 :: real, ?punch, 0.25 :: real)]"
  have p: "(0 :: real) < 0.5"
    by simp
  have q: "0.5 < MAX_CHARGE_TIME"
    by (simp add: MAX_CHARGE_TIME_def)
  have a: "state ?f0 \<noteq> CHARGING"
    by (simp add: newFighter_def)
  have b: "state (update 0.016 ?punch 0 ?f0) = CHARGING"
    by (simp add: update_defs newFighter_def)
  have c: "\<forall>(dt', inp', now') \<in> set ?us.
           (punchHeld inp' \<or> kickHeld inp') \<and> now' - 0 \<le> OVERHEAT_TIME"
    by (simp add: OVERHEAT_TIME_def)
  have d: "punchHeld ?punch \<or> kickHeld ?punch"
    by simp
  have e: "(0 :: real) \<le> 0.25"
    by simp
  note w = windUp_before_charge [OF p q a b c d e, of "0.016"]
  have "windUpProgress 0.5 0.5 = 1
     \<and> chargeLevel (update 0.016 ?punch (0 + 0.5) (updates ?us (update 0.016 ?punch 0 ?f0)))
          = 0.5 / MAX_CHARGE_TIME"
    using w by blast
  then show ?thesis
    using p q a b by blast
qed

section \<open>Release and the damage tier\<close>

lemma update_release:
  assumes "state f = CHARGING" and "\<not> punchHeld inp" and "\<not> kickHeld inp"
  shows "state (update dt inp now f) = ATTACKING
     \<and> chargeLevel (update dt inp now f) = 0
     \<and> attackType (update dt inp now f) = attackType f
     \<and> x (update dt inp now f) = x f"
  using assms by (simp add: update_defs)

text \<open>
  Whatever the charge was, the hit that follows a release is computed from charge
  level 0: an unblocked defender in range loses the light tier of the attack type.
\<close>

lemma release_hit_is_light:
  assumes "state f = CHARGING" and "\<not> punchHeld inp" and "\<not> kickHeld inp"
    and "\<bar>x f - x d\<bar> \<le> FIGHTER_WIDTH * 1.5"
    and "state d \<noteq> BLOCKING_HIGH" and "state d \<noteq> BLOCKING_LOW"
  shows "health (snd (checkHitForAttacker (update dt inp now f) d))
           = max 0 (health d - baseDamage (attackType f) 0)"
proof -
  note r = update_release [OF assms(1-3), of dt now]
  show ?thesis
    using r assms(4-6) by (simp add: checkHitForAttacker_def Let_def)
qed

text \<open>
  Claim C1, evaluated on the code. The player holds punch from clock value 0 to 1 (a
  full second, charge level 1), then releases with neutral direction; the cpu stands
  idle 50 units away. The release puts the player in ATTACKING and sets the charge
  level to 0 in the same update, so hit detection reads 0 and subtracts the damage of
  JAB: the health of the cpu is 95, where the heavy punch would leave 80.
\<close>

theorem full_charge_release_hits_light:
  "chargeLevel (update 0.016 \<lparr>x_in = 0, y_in = 0, punchHeld = True, kickHeld = False\<rparr> 1
      (update 0.016 \<lparr>x_in = 0, y_in = 0, punchHeld = True, kickHeld = False\<rparr> 0
        (newFighter ''player'' 400))) = 1
   \<and> state (update 0.016 \<lparr>x_in = 0, y_in = 0, punchHeld = False, kickHeld = False\<rparr> 1.016
      (update 0.016 \<lparr>x_in = 0, y_in = 0, punchHeld = True, kickHeld = False\<rparr> 1
        (update 0.016 \<lparr>x_in = 0, y_in = 0, punchHeld = True, kickHeld = False\<rparr> 0
          (newFighter ''player'' 400)))) = ATTACKING
   \<and> chargeLevel (update 0.016 \<lparr>x_in = 0, y_in = 0, punchHeld = False, kickHeld = False\<rparr> 1.016
      (update 0.016 \<lparr>x_in = 0, y_in = 0, punchHeld = True, kickHeld = False\<rparr> 1
        (update 0.016 \<lparr>x_in = 0, y_in = 0, punchHeld = True, kickHeld = False\<rparr> 0
          (newFighter ''player'' 400)))) = 0
   \<and> health (snd (checkHitForAttacker
      (update 0.016 \<lparr>x_in = 0, y_in = 0, punchHeld = False, kickHeld = False\<rparr> 1.016
        (update 0.016 \<lparr>x_in = 0, y_in = 0, punchHeld = True, kickHeld = False\<rparr> 1
          (update 0.016 \<lparr>x_in = 0, y_in = 0, punchHeld = True, kickHeld = False\<rparr> 0
            (newFighter ''player'' 400))))
      (newFighter ''cpu'' 450))) = 95
   \<and> 100 - damage HEAVY_PUNCH = 80"
  by (simp add: update_defs checkHitForAttacker_def newFighter_def baseDamage_def
      MAX_CHARGE_TIME_def OVERHEAT_TIME_def FIGHTER_WIDTH_def)

section \<open>Upward input on the ground\<close>

text \<open>
  Claim C6, as the code has it. A fighter in IDLE on the ground that asserts upward
  input (\<open>input.y > 0.5\<close>) goes to BLOCKING_HIGH; asserting it again keeps
  BLOCKING_HIGH; neutral input with no button held brings it back to IDLE. The
  vertical position is ground level after every update of any run: no update writes
  it, and \<open>FighterState\<close> has no jumping state.
\<close>

theorem up_input_blocks_high:
  assumes "state f = IDLE" and "y f = GROUND_Y"
    and "y_in up > 0.5" and "y_in again > 0.5"
    and "\<not> y_in neutral > 0.5" and "\<not> y_in neutral < - 0.5"
    and "\<not> punchHeld neutral" and "\<not> kickHeld neutral"
  shows "state (update dt up now f) = BLOCKING_HIGH
     \<and> state (update dt' again now' (update dt up now f)) = BLOCKING_HIGH
     \<and> state (update dt'' neutral now'' (update dt' again now' (update dt up now f))) = IDLE
     \<and> y (updates us f) = GROUND_Y"
proof -
  have 1: "state (update dt up now f) = BLOCKING_HIGH"
    using assms(1,3) by (simp add: update_defs)
  have 2: "state (update dt' again now' (update dt up now f)) = BLOCKING_HIGH"
    using update_blocking [of "update dt up now f" again dt' now'] 1 assms(4) by simp
  have 3: "state (update dt'' neutral now'' (update dt' again now' (update dt up now f))) = IDLE"
    using 2 assms(5-8) by (simp add: update_defs)
  have 4: "y (updates us f) = GROUND_Y"
    using assms(2) by (simp add: updates_y)
  show ?thesis
    using 1 2 3 4 by blast
qed

theorem up_input_blocks_high_witness:
  "state (newFighter ''player'' 400) = IDLE \<and> y (newFighter ''player'' 400) = GROUND_Y
   \<and> state (update 0.016 \<lparr>x_in = 0, y_in = 1, punchHeld = False, kickHeld = False\<rparr> 0
        (newFighter ''player'' 400)) = BLOCKING_HIGH
   \<and> state (update 0.016 \<lparr>x_in = 0, y_in = 0, punchHeld = False, kickHeld = False\<rparr> 0.032
        (update 0.016 \<lparr>x_in = 0, y_in = 1, punchHeld = False, kickHeld = False\<rparr> 0.016
          (update 0.016 \<lparr>x_in = 0, y_in = 1, punchHeld = False, kickHeld = False\<rparr> 0
            (newFighter ''player'' 400)))) = IDLE
   \<and> y (updates
        [(0.016, \<lparr>x_in = 0, y_in = 1, punchHeld = False, kickHeld = False\<rparr>, 0),
         (0.016, \<lparr>x_in = 0, y_in = 1, punchHeld = False, kickHeld = False\<rparr>, 0.016),
         (0.016, \<lparr>x_in = 0, y_in = 0, punchHeld = False, kickHeld = False\<rparr>, 0.032)]
        (newFighter ''player'' 400)) = GROUND_Y"
proof -
  let ?f = "newFighter ''player'' 400"
  let ?up = "\<lparr>x_in = 0, y_in = 1, punchHeld = False, kickHeld = False\<rparr>"
  let ?neutral = "\<lparr>x_in = 0, y_in = 0, punchHeld = False, kickHeld = False\<rparr>"
  let ?us = "[(0.016 :: real, ?up, 0 :: real), (0.016, ?up, 0.016), (0.016, ?neutral, 0.032)]"
  have a: "state ?f = IDLE" and b: "y ?f = GROUND_Y"
    by (simp_all add: newFighter_def)
  have c: "y_in ?up > 0.5"
    by simp
  have d: "\<not> y_in ?neutral > 0.5" and e: "\<not> y_in ?neutral < - 0.5"
    and g: "\<not> punchHeld ?neutral" and h: "\<not> kickHeld ?neutral"
    by simp_all
  note w = up_input_blocks_high [OF a b c c d e g h, of "0.016" 0 "0.016" "0.016" "0.016" "0.032" ?us]
  show ?thesis
    using w a b by blast
qed

text \<open>
  On a freshly constructed fighter, upward input gives BLOCKING_HIGH with the vertical
  position still at ground level, after one update and after two.
\<close>

theorem jump_counterexample:
  "state (update 0.016 \<lparr>x_in = 0, y_in = 1, punchHeld = False, kickHeld = False\<rparr> 0
      (newFighter ''player'' 400)) = BLOCKING_HIGH
   \<and> y (update 0.016 \<lparr>x_in = 0, y_in = 1, punchHeld = False, kickHeld = False\<rparr> 0
      (newFighter ''player'' 400)) = GROUND_Y
   \<and> y (update 0.016 \<lparr>x_in = 0, y_in = 1, punchHeld = False, kickHeld = False\<rparr> 0.016
      (update 0.016 \<lparr>x_in = 0, y_in = 1, punchHeld = False, kickHeld = False\<rparr> 0
        (newFighter ''player'' 400))) = GROUND_Y"
  by (simp add: update_defs newFighter_def)

end
